theory Spec2Isabelle
  imports Main
begin

section \<open>Tier classifier (src/lib/models.ts)\<close>

text \<open>
  \<^verbatim>\<open>export type ModelTier = 'premium' | 'mini'\<close>
\<close>

datatype ModelTier = Premium | Mini

text \<open>The two prefix tables, in the order the source lists them.\<close>

definition PREMIUM_MODELS :: "string list" where
  "PREMIUM_MODELS =
     [''gpt-5'', ''gpt-5-codex'', ''gpt-5-chat-latest'', ''gpt-4.1'', ''gpt-4o'', ''o1'', ''o3'']"

definition MINI_MODELS :: "string list" where
  "MINI_MODELS =
     [''gpt-5-mini'', ''gpt-5-nano'', ''gpt-4.1-mini'', ''gpt-4.1-nano'', ''gpt-4o-mini'',
      ''o1-mini'', ''o3-mini'', ''o4-mini'', ''codex-mini-latest'']"

text \<open>\<^verbatim>\<open>model.startsWith(prefix)\<close>: the first \<open>length prefix\<close> characters are the prefix.\<close>

definition startsWith :: "string \<Rightarrow> string \<Rightarrow> bool" where
  "startsWith s p = (take (length p) s = p)"

text \<open>
  \<^verbatim>\<open>getModelTier\<close>: the premium table is consulted first, then the mini table, and a
  name matching neither defaults to premium (the warning is not modelled).
\<close>

definition getModelTier :: "string \<Rightarrow> ModelTier" where
  "getModelTier model =
     (if list_ex (\<lambda>prefix. startsWith model prefix) PREMIUM_MODELS then Premium
      else if list_ex (\<lambda>prefix. startsWith model prefix) MINI_MODELS then Mini
      else Premium)"

section \<open>Data model (src/types)\<close>

text \<open>
  Token counts are JavaScript numbers holding integers and SQLite \<open>INTEGER\<close> columns;
  they are modelled as unbounded integers.
\<close>

record UsageRecord =
  tier :: ModelTier
  date :: string
  tokens_used :: int
  limit :: int

record RequestHistory =
  entry_id :: nat
  timestamp :: string
  model :: string
  prompt_tokens_h :: int
  completion_tokens_h :: int
  total_tokens_h :: int
  request_path :: string
  status :: nat
  tier_h :: ModelTier

record OpenAIUsage =
  prompt_tokens :: int
  completion_tokens :: int
  total_tokens :: int

text \<open>
  \<^verbatim>\<open>EnvConfig\<close>, the value \<^verbatim>\<open>getConfig()\<close> returns. The server validates it once at
  startup; the operations below receive the validated value.
\<close>

record EnvConfig =
  OPENAI_API_KEY :: string
  PREMIUM_TIER_LIMIT :: int
  MINI_TIER_LIMIT :: int

section \<open>Store (src/lib/database.ts)\<close>

text \<open>
  The three tables: \<open>usage_records\<close> keyed by its primary key \<open>tier\<close>,
  \<open>request_history\<close> in insertion order, and the key/value table \<open>config\<close>.
  Every operation takes the database and returns the updated one.
\<close>

record Database =
  usage_records :: "ModelTier \<rightharpoonup> UsageRecord"
  request_history :: "RequestHistory list"
  config :: "string \<rightharpoonup> string"

definition getConfigValue :: "string \<Rightarrow> Database \<Rightarrow> string option" where
  "getConfigValue key db = config db key"

definition setConfigValue :: "string \<Rightarrow> string \<Rightarrow> Database \<Rightarrow> Database" where
  "setConfigValue key v db = db\<lparr>config := (config db)(key \<mapsto> v)\<rparr>"

definition getUsageRecord :: "ModelTier \<Rightarrow> Database \<Rightarrow> UsageRecord option" where
  "getUsageRecord t db = usage_records db t"

text \<open>\<^verbatim>\<open>INSERT ... ON CONFLICT(tier) DO UPDATE\<close>: the row of the record's tier is replaced whole.\<close>

definition upsertUsageRecord :: "UsageRecord \<Rightarrow> Database \<Rightarrow> Database" where
  "upsertUsageRecord r db = db\<lparr>usage_records := (usage_records db)(tier r \<mapsto> r)\<rparr>"

text \<open>
  \<^verbatim>\<open>UPDATE usage_records SET tokens_used = tokens_used + ? WHERE tier = ?\<close>: a tier with
  no row is left without one.
\<close>

definition incrementTokens :: "ModelTier \<Rightarrow> int \<Rightarrow> Database \<Rightarrow> Database" where
  "incrementTokens t tokens db =
     (case usage_records db t of
        None \<Rightarrow> db
      | Some r \<Rightarrow> db\<lparr>usage_records := (usage_records db)(t \<mapsto> r\<lparr>tokens_used := tokens_used r + tokens\<rparr>)\<rparr>)"

text \<open>
  \<^verbatim>\<open>resetUsageRecord\<close>; \<open>today\<close> is the value of \<^verbatim>\<open>getCurrentDate()\<close>, the UTC calendar
  date, which one operation reads as one value.
\<close>

definition resetUsageRecord :: "EnvConfig \<Rightarrow> string \<Rightarrow> ModelTier \<Rightarrow> Database \<Rightarrow> Database" where
  "resetUsageRecord cfg today t db =
     upsertUsageRecord
       \<lparr>tier = t, date = today, tokens_used = 0,
        limit = (if t = Premium then PREMIUM_TIER_LIMIT cfg else MINI_TIER_LIMIT cfg)\<rparr> db"

text \<open>
  \<^verbatim>\<open>checkAndResetDaily\<close>: \<^verbatim>\<open>currentDate !== today\<close> also holds when the key
  \<open>current_date\<close> is missing.
\<close>

definition checkAndResetDaily :: "EnvConfig \<Rightarrow> string \<Rightarrow> Database \<Rightarrow> bool \<times> Database" where
  "checkAndResetDaily cfg today db =
     (if getConfigValue ''current_date'' db \<noteq> Some today then
        (True,
         setConfigValue ''current_date'' today
           (resetUsageRecord cfg today Mini (resetUsageRecord cfg today Premium db)))
      else (False, db))"

text \<open>
  \<^verbatim>\<open>initializeConfig\<close>: the date marker and each tier's row are created only where they
  are missing (an empty stored date is falsy and is replaced).
\<close>

definition initializeConfig :: "EnvConfig \<Rightarrow> string \<Rightarrow> Database \<Rightarrow> Database" where
  "initializeConfig cfg today db =
     (let db1 = (case getConfigValue ''current_date'' db of
                   None \<Rightarrow> setConfigValue ''current_date'' today db
                 | Some d \<Rightarrow> if d = [] then setConfigValue ''current_date'' today db else db);
          db2 = (case getUsageRecord Premium db1 of
                   None \<Rightarrow> upsertUsageRecord
                     \<lparr>tier = Premium, date = today, tokens_used = 0,
                      limit = PREMIUM_TIER_LIMIT cfg\<rparr> db1
                 | Some _ \<Rightarrow> db1)
      in (case getUsageRecord Mini db2 of
            None \<Rightarrow> upsertUsageRecord
              \<lparr>tier = Mini, date = today, tokens_used = 0, limit = MINI_TIER_LIMIT cfg\<rparr> db2
          | Some _ \<Rightarrow> db2))"

text \<open>
  \<^verbatim>\<open>addRequestHistory\<close>: the store assigns the next \<open>AUTOINCREMENT\<close> id (rows are never
  deleted, so it is one more than the number of rows). The \<open>INSERT\<close> can be refused by
  the store, in which case \<^verbatim>\<open>stmt.run\<close> throws: \<open>accepted\<close> is the store's answer and
  \<open>None\<close> the exception.
\<close>

definition addRequestHistory :: "bool \<Rightarrow> RequestHistory \<Rightarrow> Database \<Rightarrow> Database option" where
  "addRequestHistory accepted entry db =
     (if accepted then
        Some (db\<lparr>request_history :=
                   request_history db @ [entry\<lparr>entry_id := Suc (length (request_history db))\<rparr>]\<rparr>)
      else None)"

definition getRequestHistoryCount :: "Database \<Rightarrow> nat" where
  "getRequestHistoryCount db = length (request_history db)"

section \<open>Request pipeline (src/lib/proxy.ts)\<close>

text \<open>
  A JavaScript number holding an integer, interpolated into a template string: its
  decimal digits, with a leading minus sign when negative.
\<close>

fun showNat :: "nat \<Rightarrow> string" where
  "showNat n =
     (if n < 10 then [''0123456789'' ! n]
      else showNat (n div 10) @ [''0123456789'' ! (n mod 10)])"

declare showNat.simps [simp del]

definition showInt :: "int \<Rightarrow> string" where
  "showInt i = (if i < 0 then CHR ''-'' # showNat (nat (- i)) else showNat (nat i))"

fun tierName :: "ModelTier \<Rightarrow> string" where
  "tierName Premium = ''premium''"
| "tierName Mini = ''mini''"

text \<open>
  The inbound request as \<^verbatim>\<open>proxyRequest\<close> reads it: its path and its body. Reading or
  parsing the body may throw (\<open>Unparseable\<close>); otherwise \<open>Parsed m s\<close> carries the
  \<open>model\<close> field (a string, or \<open>None\<close> when it is absent; an empty body parses as the
  empty object) and whether \<^verbatim>\<open>requestBody.stream === true\<close>.
\<close>

datatype RequestBody = Unparseable | Parsed "string option" bool

record Context =
  req_path :: string
  req_body :: RequestBody

text \<open>
  What the upstream call does: \<^verbatim>\<open>fetch\<close> rejects, or it answers with a status and
  a body which either cannot be read (\<^verbatim>\<open>responseClone.json()\<close> or the access to its
  \<open>usage\<close> throws) or is a JSON object with or without a \<open>usage\<close> object. The
  status is passed on whatever it is.
\<close>

datatype UpstreamBody = NotJson | JsonBody "OpenAIUsage option"

datatype Upstream = FetchFails | UpstreamResponse nat UpstreamBody

text \<open>
  The surroundings of one request: the UTC date and the timestamp the clock gives, the
  upstream's behaviour, and whether the store accepts the history row.
\<close>

record Env =
  today :: string
  now :: string
  upstream :: Upstream
  history_accepted :: bool

text \<open>
  The responses of \<^verbatim>\<open>proxyRequest\<close>: an error object (status, message, type, code), the
  piped streaming body with the upstream status, or the upstream JSON re-serialised with
  the upstream status.
\<close>

datatype Response =
    ErrorJson nat string string "string option"
  | StreamResponse nat
  | JsonResponse nat "OpenAIUsage option"

definition resetInfo :: "ModelTier \<Rightarrow> UsageRecord \<Rightarrow> string" where
  "resetInfo t r =
     ''Daily limit for '' @ tierName t @ '' tier exceeded ('' @ showInt (tokens_used r) @ ''/''
       @ showInt (limit r) @ '' tokens). Resets at 00:00 UTC.''"

definition proxyFailure :: Response where
  "proxyFailure = ErrorJson 500 ''Failed to proxy request to OpenAI API'' ''server_error'' None"

text \<open>
  The first half of \<^verbatim>\<open>proxyRequest\<close>, after the daily-reset call and up to the limit
  check: a chain of early returns. \<open>Inl\<close> is the response returned early; \<open>Inr\<close> is falling
  through to the forwarding code with the model and its tier.
\<close>

definition admitRequest :: "Context \<Rightarrow> Database \<Rightarrow> Response + string \<times> ModelTier" where
  "admitRequest c db =
     (case req_body c of
        Unparseable \<Rightarrow>
          Inl (ErrorJson 400 ''Invalid request body'' ''invalid_request_error'' None)
      | Parsed mo s \<Rightarrow>
          (case mo of
             None \<Rightarrow>
               Inl (ErrorJson 400 ''Model parameter is required'' ''invalid_request_error'' None)
           | Some m \<Rightarrow>
               if m = [] then
                 Inl (ErrorJson 400 ''Model parameter is required'' ''invalid_request_error'' None)
               else
                 (let t = getModelTier m in
                  case getUsageRecord t db of
                    None \<Rightarrow>
                      Inl (ErrorJson 500 ''Usage tracking not initialized'' ''server_error'' None)
                  | Some usageRecord \<Rightarrow>
                      if tokens_used usageRecord \<ge> limit usageRecord then
                        Inl (ErrorJson 429 (resetInfo t usageRecord) ''rate_limit_error''
                               (Some ''daily_token_limit_exceeded''))
                      else Inr (m, t))))"

definition isStreaming :: "Context \<Rightarrow> bool" where
  "isStreaming c = (case req_body c of Unparseable \<Rightarrow> False | Parsed mo s \<Rightarrow> s)"

text \<open>
  The second half, inside the \<^verbatim>\<open>try\<close>: forward, then either pipe the stream through or
  read the usage and account for it. Any exception in the block, the store's included,
  reaches the one \<^verbatim>\<open>catch\<close>, which answers with \<open>proxyFailure\<close>; what was written
  before the exception stays written.
\<close>

definition forwardRequest ::
    "Env \<Rightarrow> Context \<Rightarrow> string \<Rightarrow> ModelTier \<Rightarrow> Database \<Rightarrow> Database \<times> Response" where
  "forwardRequest env c m t db =
     (case upstream env of
        FetchFails \<Rightarrow> (db, proxyFailure)
      | UpstreamResponse st body \<Rightarrow>
          if isStreaming c then (db, StreamResponse st)
          else
            (case body of
               NotJson \<Rightarrow> (db, proxyFailure)
             | JsonBody usage \<Rightarrow>
                 (case usage of
                    None \<Rightarrow> (db, JsonResponse st usage)
                  | Some u \<Rightarrow>
                      if total_tokens u > 0 then
                        (let db1 = incrementTokens t (total_tokens u) db in
                         case addRequestHistory (history_accepted env)
                                \<lparr>entry_id = 0, timestamp = now env, model = m,
                                 prompt_tokens_h = prompt_tokens u,
                                 completion_tokens_h = completion_tokens u,
                                 total_tokens_h = total_tokens u,
                                 request_path = req_path c, status = st, tier_h = t\<rparr> db1 of
                           None \<Rightarrow> (db1, proxyFailure)
                         | Some db2 \<Rightarrow> (db2, JsonResponse st usage))
                      else (db, JsonResponse st usage))))"

definition proxyRequest :: "EnvConfig \<Rightarrow> Env \<Rightarrow> Context \<Rightarrow> Database \<Rightarrow> Database \<times> Response" where
  "proxyRequest cfg env c db =
     (let db1 = snd (checkAndResetDaily cfg (today env) db) in
      case admitRequest c db1 of
        Inl response \<Rightarrow> (db1, response)
      | Inr (m, t) \<Rightarrow> forwardRequest env c m t db1)"

section \<open>Reconciliation (src/lib/reconciliation.ts)\<close>

text \<open>The fields of an upstream \<^verbatim>\<open>UsageResult\<close> row that the reconciler reads.\<close>

record UsageResult =
  result_model :: string
  input_tokens :: int
  output_tokens :: int

text \<open>
  One call of the reporting endpoint: \<^verbatim>\<open>fetch\<close> rejects with a message; the status is
  not ok (status and body text); the body cannot be read as a usage page (the message of
  the exception that reading it throws); or it is a page: the rows of each bucket, and
  \<open>next_page\<close>. The endpoint is a function of the admin key sent and the address
  fetched.
\<close>

datatype ApiResponse =
    FetchRejects string
  | NotOk nat string
  | BadBody string
  | UsagePage "UsageResult list list" "string option"

type_synonym UsageApi = "string \<Rightarrow> string \<Rightarrow> ApiResponse"

text \<open>
  The \<^verbatim>\<open>do ... while (nextPage)\<close> loop of \<^verbatim>\<open>fetchOpenAIUsage\<close>: \<open>fetchUrl\<close> is the address
  of this round (\<^verbatim>\<open>nextPage || url\<close>), \<open>allResults\<close> the rows pushed so far. The loop stops
  on a page whose \<open>next_page\<close> is null or empty, and an exception leaves it at once. The
  cursors may never end, so the result is optional: \<open>None\<close> is a loop that runs forever,
  \<open>Some (Inl message)\<close> an exception.
\<close>

partial_function (option) fetchPages ::
    "(string \<Rightarrow> ApiResponse) \<Rightarrow> string \<Rightarrow> UsageResult list \<Rightarrow> (string + UsageResult list) option" where
  "fetchPages endpoint fetchUrl allResults =
     (case endpoint fetchUrl of
        FetchRejects msg \<Rightarrow> Some (Inl msg)
      | NotOk st body \<Rightarrow>
          Some (Inl (''Failed to fetch usage from OpenAI: '' @ showNat st @ '' - '' @ body))
      | BadBody msg \<Rightarrow> Some (Inl msg)
      | UsagePage buckets next_page \<Rightarrow>
          (case next_page of
             None \<Rightarrow> Some (Inr (allResults @ concat buckets))
           | Some nextPage \<Rightarrow>
               if nextPage = [] then Some (Inr (allResults @ concat buckets))
               else fetchPages endpoint nextPage (allResults @ concat buckets)))"

text \<open>
  The address of the first page: \<^verbatim>\<open>URLSearchParams\<close> of \<open>start_time\<close>, \<open>bucket_width\<close>
  and \<open>group_by\<close>, with \<open>end_time\<close> appended when it is given and not zero.
\<close>

definition usageUrl :: "int \<Rightarrow> int option \<Rightarrow> string" where
  "usageUrl startTime endTime =
     ''https://api.openai.com/v1/organization/usage/completions?'' @ ''start_time=''
       @ showInt startTime @ ''&bucket_width=1d&group_by=model''
       @ (case endTime of
            None \<Rightarrow> []
          | Some e \<Rightarrow> if e = 0 then [] else ''&end_time='' @ showInt e)"

definition adminKeyRequired :: string where
  "adminKeyRequired =
     ''OPENAI_ADMIN_KEY is required for usage reconciliation. Get one from https://platform.openai.com/settings/organization/admin-keys''"

text \<open>
  \<^verbatim>\<open>fetchOpenAIUsage\<close>; \<open>envKey\<close> is \<^verbatim>\<open>process.env.OPENAI_ADMIN_KEY\<close>. An empty key is
  falsy.
\<close>

definition fetchOpenAIUsage ::
    "UsageApi \<Rightarrow> string option \<Rightarrow> int \<Rightarrow> int option \<Rightarrow> string option
      \<Rightarrow> (string + UsageResult list) option" where
  "fetchOpenAIUsage api envKey startTime endTime adminKey =
     (let key = (case adminKey of
                   None \<Rightarrow> envKey
                 | Some k \<Rightarrow> if k = [] then envKey else Some k)
      in case key of
           None \<Rightarrow> Some (Inl adminKeyRequired)
         | Some k \<Rightarrow>
             if k = [] then Some (Inl adminKeyRequired)
             else fetchPages (api k) (usageUrl startTime endTime) [])"

text \<open>
  The \<^verbatim>\<open>for (const result of results)\<close> loop: \<^verbatim>\<open>tierTotals[tier] += totalTokens\<close>,
  from zero for both tiers.
\<close>

definition tierTotals :: "UsageResult list \<Rightarrow> ModelTier \<Rightarrow> int" where
  "tierTotals results =
     fold (\<lambda>result totals.
             totals(getModelTier (result_model result) :=
                      totals (getModelTier (result_model result))
                        + (input_tokens result + output_tokens result)))
       results (\<lambda>t. 0)"

record TierReport =
  before :: int
  after :: int
  added :: int

text \<open>
  The value \<^verbatim>\<open>reconcileUsage\<close> resolves to. Each entry of \<open>details\<close> is kept as the
  triple the source renders into one line of text (model, tier, tokens of the row).
\<close>

record ReconcileResult =
  success :: bool
  result_date :: string
  premium :: TierReport
  mini :: TierReport
  details :: "(string \<times> ModelTier \<times> int) list"

text \<open>\<^verbatim>\<open>date || getCurrentDate()\<close>: a missing or empty \<open>date\<close> means today.\<close>

definition targetDate :: "string \<Rightarrow> string option \<Rightarrow> string" where
  "targetDate today_s date_arg =
     (case date_arg of
        None \<Rightarrow> today_s
      | Some d \<Rightarrow> if d = [] then today_s else d)"

text \<open>
  \<^verbatim>\<open>reconcileUsage\<close>. \<open>parseDate\<close> is \<^verbatim>\<open>new Date(dateStr).getTime()\<close>: the epoch
  milliseconds, or \<open>None\<close> for an invalid date. An exception (\<open>Inl\<close>) is rethrown to
  the caller; the database is returned with it to show what was written on the way.
\<close>

definition reconcileUsage ::
    "UsageApi \<Rightarrow> string option \<Rightarrow> (string \<Rightarrow> int option) \<Rightarrow> string \<Rightarrow> string option \<Rightarrow> Database
      \<Rightarrow> ((string + ReconcileResult) \<times> Database) option" where
  "reconcileUsage api envKey parseDate today_s date_arg db =
     (let target = targetDate today_s date_arg
      in case parseDate (target @ ''T00:00:00Z'') of
           None \<Rightarrow>
             Some (Inl (''Invalid date: '' @ [CHR 0x22] @ target @ [CHR 0x22]
                          @ ''. Expected format: YYYY-MM-DD''), db)
         | Some ms \<Rightarrow>
             (let startTime = ms div 1000;
                  endTime = startTime + 86400
              in case getUsageRecord Premium db of
                   None \<Rightarrow> Some (Inl ''Usage records not initialized'', db)
                 | Some premiumBefore \<Rightarrow>
                     (case getUsageRecord Mini db of
                        None \<Rightarrow> Some (Inl ''Usage records not initialized'', db)
                      | Some miniBefore \<Rightarrow>
                          (case fetchOpenAIUsage api envKey startTime (Some endTime) None of
                             None \<Rightarrow> None
                           | Some (Inl e) \<Rightarrow> Some (Inl e, db)
                           | Some (Inr results) \<Rightarrow>
                               (let totals = tierTotals results;
                                    premiumDiff = max 0 (totals Premium - tokens_used premiumBefore);
                                    miniDiff = max 0 (totals Mini - tokens_used miniBefore);
                                    db1 = (if premiumDiff > 0
                                           then incrementTokens Premium premiumDiff db else db);
                                    db2 = (if miniDiff > 0
                                           then incrementTokens Mini miniDiff db1 else db1);
                                    premiumAfter = (case getUsageRecord Premium db2 of
                                                      None \<Rightarrow> 0 | Some r \<Rightarrow> tokens_used r);
                                    miniAfter = (case getUsageRecord Mini db2 of
                                                   None \<Rightarrow> 0 | Some r \<Rightarrow> tokens_used r)
                                in Some (Inr \<lparr>success = True, result_date = target,
                                              premium = \<lparr>before = tokens_used premiumBefore,
                                                         after = premiumAfter,
                                                         added = premiumDiff\<rparr>,
                                              mini = \<lparr>before = tokens_used miniBefore,
                                                      after = miniAfter, added = miniDiff\<rparr>,
                                              details =
                                                map (\<lambda>result.
                                                       (result_model result,
                                                        getModelTier (result_model result),
                                                        input_tokens result + output_tokens result))
                                                  results\<rparr>,
                                         db2))))))"

text \<open>
  Descriptions of what the endpoint serves from a first address \<open>u\<close>, used to state the
  pagination theorems. \<open>completePages endpoint u vs\<close>: the page at \<open>u\<close> and the pages at
  the cursors \<open>vs\<close> are all served, each names the next as its \<open>next_page\<close>, and the last
  names none. \<open>failingPages endpoint u vs\<close>: the same chain, except that the last address
  is not served as a page.
\<close>

fun completePages :: "(string \<Rightarrow> ApiResponse) \<Rightarrow> string \<Rightarrow> string list \<Rightarrow> bool" where
  "completePages endpoint u [] =
     (case endpoint u of
        UsagePage buckets np \<Rightarrow> np = None \<or> np = Some []
      | _ \<Rightarrow> False)"
| "completePages endpoint u (v # vs) =
     (case endpoint u of
        UsagePage buckets np \<Rightarrow> v \<noteq> [] \<and> np = Some v \<and> completePages endpoint v vs
      | _ \<Rightarrow> False)"

fun failingPages :: "(string \<Rightarrow> ApiResponse) \<Rightarrow> string \<Rightarrow> string list \<Rightarrow> bool" where
  "failingPages endpoint u [] =
     (case endpoint u of
        UsagePage buckets np \<Rightarrow> False
      | _ \<Rightarrow> True)"
| "failingPages endpoint u (v # vs) =
     (case endpoint u of
        UsagePage buckets np \<Rightarrow> v \<noteq> [] \<and> np = Some v \<and> failingPages endpoint v vs
      | _ \<Rightarrow> False)"

fun pageRows :: "ApiResponse \<Rightarrow> UsageResult list" where
  "pageRows (UsagePage buckets np) = concat buckets"
| "pageRows _ = []"

section \<open>Example runs\<close>

text \<open>
  Concrete inputs on which the theorems below are exercised: a configuration, the ledger
  of 14 January 2025 (premium at 500 tokens under a stored limit of 1000, mini at 30), a
  ledger whose premium tier has reached its limit, a non-streaming upstream answer with
  the usage \<open>{prompt: 100, completion: 50, total: 150}\<close>, and a reporting endpoint that
  serves the day in two pages (300 premium tokens, then 50 mini tokens) next to one whose
  second page answers with status 500.
\<close>

definition exampleConfig :: EnvConfig where
  "exampleConfig =
     \<lparr>OPENAI_API_KEY = ''sk-test'', PREMIUM_TIER_LIMIT = 1000000, MINI_TIER_LIMIT = 10000000\<rparr>"

definition ledgerJan14 :: Database where
  "ledgerJan14 =
     \<lparr>usage_records =
        [Premium \<mapsto> \<lparr>tier = Premium, date = ''2025-01-14'', tokens_used = 500, limit = 1000\<rparr>,
         Mini \<mapsto> \<lparr>tier = Mini, date = ''2025-01-14'', tokens_used = 30, limit = 10000000\<rparr>],
      request_history = [],
      config = [''current_date'' \<mapsto> ''2025-01-14'']\<rparr>"

definition ledgerFull :: Database where
  "ledgerFull =
     \<lparr>usage_records =
        [Premium \<mapsto> \<lparr>tier = Premium, date = ''2025-01-14'', tokens_used = 1000, limit = 1000\<rparr>,
         Mini \<mapsto> \<lparr>tier = Mini, date = ''2025-01-14'', tokens_used = 30, limit = 10000000\<rparr>],
      request_history = [],
      config = [''current_date'' \<mapsto> ''2025-01-14'']\<rparr>"

definition envJan14 :: Env where
  "envJan14 =
     \<lparr>today = ''2025-01-14'', now = ''2025-01-14T10:00:00.000Z'',
      upstream = UpstreamResponse 200
        (JsonBody (Some \<lparr>prompt_tokens = 100, completion_tokens = 50, total_tokens = 150\<rparr>)),
      history_accepted = True\<rparr>"

definition chatRequest :: "string \<Rightarrow> bool \<Rightarrow> Context" where
  "chatRequest m s = \<lparr>req_path = ''/v1/chat/completions'', req_body = Parsed (Some m) s\<rparr>"

definition parseJan14 :: "string \<Rightarrow> int option" where
  "parseJan14 s = (if s = ''2025-01-14T00:00:00Z'' then Some 1736812800000 else None)"

definition reportRows :: "UsageResult list" where
  "reportRows =
     [\<lparr>result_model = ''gpt-4o'', input_tokens = 200, output_tokens = 100\<rparr>,
      \<lparr>result_model = ''o4-mini'', input_tokens = 40, output_tokens = 10\<rparr>]"

definition reportApi :: UsageApi where
  "reportApi key address =
     (if key \<noteq> ''sk-admin'' then NotOk 401 ''invalid admin key''
      else if address = usageUrl 1736812800 (Some 1736899200) then
        UsagePage [[\<lparr>result_model = ''gpt-4o'', input_tokens = 200, output_tokens = 100\<rparr>]]
          (Some ''page_2'')
      else if address = ''page_2'' then
        UsagePage [[\<lparr>result_model = ''o4-mini'', input_tokens = 40, output_tokens = 10\<rparr>]] None
      else NotOk 404 ''not found'')"

definition brokenApi :: UsageApi where
  "brokenApi key address =
     (if key \<noteq> ''sk-admin'' then NotOk 401 ''invalid admin key''
      else if address = usageUrl 1736812800 (Some 1736899200) then
        UsagePage [[\<lparr>result_model = ''o4-mini'', input_tokens = 40, output_tokens = 10\<rparr>]]
          (Some ''page_2'')
      else NotOk 500 ''upstream unavailable'')"

section \<open>Theorems\<close>

lemmas store_defs =
  getConfigValue_def setConfigValue_def getUsageRecord_def upsertUsageRecord_def
  resetUsageRecord_def

lemmas example_defs =
  exampleConfig_def ledgerJan14_def ledgerFull_def envJan14_def chatRequest_def parseJan14_def

lemmas classify_defs = getModelTier_def PREMIUM_MODELS_def MINI_MODELS_def startsWith_def

subsection \<open>Helper facts about the pagination loop\<close>

lemma fetchPages_complete:
  "completePages endpoint u vs \<Longrightarrow>
     fetchPages endpoint u acc
       = Some (Inr (acc @ concat (map (\<lambda>a. pageRows (endpoint a)) (u # vs))))"
proof (induction vs arbitrary: u acc)
  case Nil
  then show ?case
    by (subst fetchPages.simps) (auto split: ApiResponse.splits)
next
  case (Cons v vs)
  from Cons.prems obtain bs where page: "endpoint u = UsagePage bs (Some v)" and v: "v \<noteq> []"
    and rest: "completePages endpoint v vs"
    by (auto split: ApiResponse.splits)
  show ?case
    by (subst fetchPages.simps) (simp add: page v Cons.IH [OF rest])
qed

lemma fetchPages_failing:
  "failingPages endpoint u vs \<Longrightarrow> \<exists>e. fetchPages endpoint u acc = Some (Inl e)"
proof (induction vs arbitrary: u acc)
  case Nil
  then show ?case
    by (subst fetchPages.simps) (auto split: ApiResponse.splits)
next
  case (Cons v vs)
  from Cons.prems obtain bs where page: "endpoint u = UsagePage bs (Some v)" and v: "v \<noteq> []"
    and rest: "failingPages endpoint v vs"
    by (auto split: ApiResponse.splits)
  show ?case
    by (subst fetchPages.simps) (simp add: page v Cons.IH [OF rest])
qed

lemma reportApi_pages:
  "completePages (reportApi ''sk-admin'') (usageUrl 1736812800 (Some 1736899200)) [''page_2'']"
  by (simp add: reportApi_def usageUrl_def)

lemma brokenApi_pages:
  "failingPages (brokenApi ''sk-admin'') (usageUrl 1736812800 (Some 1736899200)) [''page_2'']"
  by (simp add: brokenApi_def usageUrl_def)

lemma reportApi_fetch:
  "fetchOpenAIUsage reportApi (Some ''sk-admin'') 1736812800 (Some 1736899200) None
     = Some (Inr reportRows)"
  using fetchPages_complete [OF reportApi_pages, of "[]"]
  by (simp add: fetchOpenAIUsage_def reportApi_def reportRows_def usageUrl_def)

lemma reportRows_totals:
  "tierTotals reportRows Premium = 300" "tierTotals reportRows Mini = 50"
  by (simp_all add: tierTotals_def reportRows_def classify_defs)

subsection \<open>Tier classification\<close>

text \<open>
  C1. The claim: a model name that begins with a mini-tier prefix classifies as mini even
  when it also begins with a shorter premium-tier prefix. The source consults the premium
  table first, so the mini-table entry \<open>gpt-4o-mini\<close> (which begins with the premium
  prefix \<open>gpt-4o\<close>) is classified premium: the code evaluated at that name.
\<close>

theorem getModelTier_gpt4o_mini_is_premium:
  "''gpt-4o-mini'' \<in> set MINI_MODELS
   \<and> startsWith ''gpt-4o-mini'' ''gpt-4o-mini''
   \<and> startsWith ''gpt-4o-mini'' ''gpt-4o''
   \<and> getModelTier ''gpt-4o-mini'' = Premium"
  by (simp add: MINI_MODELS_def PREMIUM_MODELS_def startsWith_def getModelTier_def)

subsection \<open>Daily rollover\<close>

text \<open>
  C5. \<^verbatim>\<open>checkAndResetDaily\<close> returns true exactly when the stored date differs from
  the current UTC date; then both tiers' \<open>tokens_used\<close> are 0 under the current date and
  the stored date is the current date (the history is untouched). When the dates agree it
  returns false and the database is unchanged. A second call on the same day returns
  false and changes nothing, whatever the first call did.
\<close>

theorem checkAndResetDaily_rollover:
  "fst (checkAndResetDaily cfg d db) = (getConfigValue ''current_date'' db \<noteq> Some d)
   \<and> (getConfigValue ''current_date'' db \<noteq> Some d \<longrightarrow>
        (\<exists>p m. getUsageRecord Premium (snd (checkAndResetDaily cfg d db)) = Some p
               \<and> tokens_used p = 0 \<and> date p = d
               \<and> getUsageRecord Mini (snd (checkAndResetDaily cfg d db)) = Some m
               \<and> tokens_used m = 0 \<and> date m = d)
        \<and> getConfigValue ''current_date'' (snd (checkAndResetDaily cfg d db)) = Some d
        \<and> request_history (snd (checkAndResetDaily cfg d db)) = request_history db)
   \<and> (getConfigValue ''current_date'' db = Some d \<longrightarrow> snd (checkAndResetDaily cfg d db) = db)
   \<and> checkAndResetDaily cfg d (snd (checkAndResetDaily cfg d db))
       = (False, snd (checkAndResetDaily cfg d db))"
  by (simp add: checkAndResetDaily_def store_defs)

text \<open>
  The day-boundary scenario: the ledger of \<open>2025-01-14\<close> read on \<open>2025-01-15\<close>, and
  read again on its own day.
\<close>

theorem checkAndResetDaily_rollover_witness:
  "getConfigValue ''current_date'' ledgerJan14 \<noteq> Some ''2025-01-15''
   \<and> fst (checkAndResetDaily exampleConfig ''2025-01-15'' ledgerJan14)
   \<and> map_option tokens_used
        (getUsageRecord Premium (snd (checkAndResetDaily exampleConfig ''2025-01-15'' ledgerJan14)))
       = Some 0
   \<and> map_option tokens_used
        (getUsageRecord Mini (snd (checkAndResetDaily exampleConfig ''2025-01-15'' ledgerJan14)))
       = Some 0
   \<and> getConfigValue ''current_date''
        (snd (checkAndResetDaily exampleConfig ''2025-01-15'' ledgerJan14)) = Some ''2025-01-15''
   \<and> getConfigValue ''current_date'' ledgerJan14 = Some ''2025-01-14''
   \<and> checkAndResetDaily exampleConfig ''2025-01-14'' ledgerJan14 = (False, ledgerJan14)"
  using checkAndResetDaily_rollover [of exampleConfig "''2025-01-15''" ledgerJan14]
    checkAndResetDaily_rollover [of exampleConfig "''2025-01-14''" ledgerJan14]
  by (simp add: example_defs checkAndResetDaily_def store_defs)

text \<open>Helper facts: which operations leave a tier's stored limit alone.\<close>

lemma incrementTokens_limit:
  "map_option limit (getUsageRecord t (incrementTokens t' n db))
     = map_option limit (getUsageRecord t db)"
  by (simp add: incrementTokens_def getUsageRecord_def split: option.splits)

lemma addRequestHistory_usage:
  "addRequestHistory ok entry db = Some db' \<Longrightarrow> usage_records db' = usage_records db"
  by (auto simp: addRequestHistory_def split: if_splits)

lemma forwardRequest_limit:
  "map_option limit (getUsageRecord t (fst (forwardRequest env c m t' db)))
     = map_option limit (getUsageRecord t db)"
proof -
  have add: "\<And>ok entry d d'. addRequestHistory ok entry d = Some d' \<Longrightarrow>
               getUsageRecord t d' = getUsageRecord t d"
    by (simp add: getUsageRecord_def addRequestHistory_usage)
  show ?thesis
    by (auto simp: forwardRequest_def Let_def incrementTokens_limit add
          split: Upstream.splits UpstreamBody.splits option.splits)
qed

lemma proxyRequest_limit:
  "map_option limit (getUsageRecord t (fst (proxyRequest cfg env c db)))
     = map_option limit (getUsageRecord t (snd (checkAndResetDaily cfg (today env) db)))"
  by (simp add: proxyRequest_def Let_def forwardRequest_limit split: sum.splits prod.splits)

lemma reconcileUsage_limit:
  assumes "reconcileUsage api envKey parseDate today_s date_arg db = Some (x, db')"
  shows "map_option limit (getUsageRecord t db') = map_option limit (getUsageRecord t db)"
  using assms
  by (auto simp: reconcileUsage_def Let_def incrementTokens_limit
        split: option.splits sum.splits if_splits)

text \<open>
  C10. On a rollover each tier's row is replaced by one that carries \<open>tokens_used = 0\<close>,
  the current date and the currently configured limit of that tier. No other operation
  refreshes the limit of an existing row: a daily check on the same day, an increment,
  the start-up initialisation (which only creates missing rows), the request pipeline
  after its daily check, and a reconciliation run all leave each row's limit as stored,
  whatever the configuration says by then.
\<close>

theorem rollover_refreshes_limit_only:
  "(getConfigValue ''current_date'' db \<noteq> Some d \<longrightarrow>
      getUsageRecord t (snd (checkAndResetDaily cfg d db))
        = Some \<lparr>tier = t, date = d, tokens_used = 0,
                limit = (if t = Premium then PREMIUM_TIER_LIMIT cfg else MINI_TIER_LIMIT cfg)\<rparr>)
   \<and> (getConfigValue ''current_date'' db = Some d \<longrightarrow>
        getUsageRecord t (snd (checkAndResetDaily cfg d db)) = getUsageRecord t db)
   \<and> map_option limit (getUsageRecord t (incrementTokens t' n db))
       = map_option limit (getUsageRecord t db)
   \<and> (getUsageRecord t db = Some r \<longrightarrow> getUsageRecord t (initializeConfig cfg d db) = Some r)
   \<and> map_option limit (getUsageRecord t (fst (proxyRequest cfg env c db)))
       = map_option limit (getUsageRecord t (snd (checkAndResetDaily cfg (today env) db)))
   \<and> (reconcileUsage api envKey parseDate d date_arg db = Some (x, db') \<longrightarrow>
        map_option limit (getUsageRecord t db') = map_option limit (getUsageRecord t db))"
proof -
  have roll: "getConfigValue ''current_date'' db \<noteq> Some d \<longrightarrow>
      getUsageRecord t (snd (checkAndResetDaily cfg d db))
        = Some \<lparr>tier = t, date = d, tokens_used = 0,
                limit = (if t = Premium then PREMIUM_TIER_LIMIT cfg else MINI_TIER_LIMIT cfg)\<rparr>"
    by (cases t) (simp_all add: checkAndResetDaily_def store_defs)
  have same: "getConfigValue ''current_date'' db = Some d \<longrightarrow>
        getUsageRecord t (snd (checkAndResetDaily cfg d db)) = getUsageRecord t db"
    by (simp add: checkAndResetDaily_def)
  have init: "getUsageRecord t db = Some r \<longrightarrow> getUsageRecord t (initializeConfig cfg d db) = Some r"
    by (cases t) (auto simp: initializeConfig_def store_defs Let_def split: option.splits)
  show ?thesis
    using roll same init incrementTokens_limit proxyRequest_limit reconcileUsage_limit
    by blast
qed

text \<open>
  The ledger of 14 January stores a premium limit of 1000 while the configuration says
  1000000: the rollover to 15 January installs 1000000, and a request on 14 January
  leaves 1000 in place.
\<close>

theorem rollover_refreshes_limit_only_witness:
  "getConfigValue ''current_date'' ledgerJan14 \<noteq> Some ''2025-01-15''
   \<and> getUsageRecord Premium (snd (checkAndResetDaily exampleConfig ''2025-01-15'' ledgerJan14))
       = Some \<lparr>tier = Premium, date = ''2025-01-15'', tokens_used = 0, limit = 1000000\<rparr>
   \<and> getConfigValue ''current_date'' ledgerJan14 = Some ''2025-01-14''
   \<and> getUsageRecord Premium ledgerJan14
       = Some \<lparr>tier = Premium, date = ''2025-01-14'', tokens_used = 500, limit = 1000\<rparr>
   \<and> getUsageRecord Premium (initializeConfig exampleConfig ''2025-01-14'' ledgerJan14)
       = Some \<lparr>tier = Premium, date = ''2025-01-14'', tokens_used = 500, limit = 1000\<rparr>
   \<and> map_option limit
        (getUsageRecord Premium
           (fst (proxyRequest exampleConfig envJan14 (chatRequest ''gpt-4o'' False) ledgerJan14)))
       = Some 1000
   \<and> (\<exists>x db'. reconcileUsage reportApi (Some ''sk-admin'') parseJan14 ''2025-01-14'' None ledgerJan14
                 = Some (x, db')
              \<and> map_option limit (getUsageRecord Premium db') = Some 1000)"
proof -
  have fetched: "fetchOpenAIUsage reportApi (Some ''sk-admin'') 1736812800 (Some 1736899200) None
                   = Some (Inr reportRows)"
    by (rule reportApi_fetch)
  have run: "\<exists>x db'. reconcileUsage reportApi (Some ''sk-admin'') parseJan14 ''2025-01-14'' None
                       ledgerJan14 = Some (x, db')"
    using fetched
    by (simp add: reconcileUsage_def targetDate_def Let_def example_defs getUsageRecord_def)
  then obtain x db' where
    r: "reconcileUsage reportApi (Some ''sk-admin'') parseJan14 ''2025-01-14'' None ledgerJan14
          = Some (x, db')"
    by blast
  note thm1 = rollover_refreshes_limit_only
    [of ledgerJan14 "''2025-01-15''" Premium exampleConfig Premium 0
        "\<lparr>tier = Premium, date = ''2025-01-14'', tokens_used = 500, limit = 1000\<rparr>"
        envJan14 "chatRequest ''gpt-4o'' False" reportApi "Some ''sk-admin''" parseJan14 None x db']
  note thm2 = rollover_refreshes_limit_only
    [of ledgerJan14 "''2025-01-14''" Premium exampleConfig Premium 0
        "\<lparr>tier = Premium, date = ''2025-01-14'', tokens_used = 500, limit = 1000\<rparr>"
        envJan14 "chatRequest ''gpt-4o'' False" reportApi "Some ''sk-admin''" parseJan14 None x db']
  have a: "getConfigValue ''current_date'' ledgerJan14 \<noteq> Some ''2025-01-15''"
    and b: "getConfigValue ''current_date'' ledgerJan14 = Some ''2025-01-14''"
    and c: "getUsageRecord Premium ledgerJan14
              = Some \<lparr>tier = Premium, date = ''2025-01-14'', tokens_used = 500, limit = 1000\<rparr>"
    and e: "today envJan14 = ''2025-01-14''"
    by (simp_all add: example_defs store_defs)
  from thm1 a have c1:
    "getUsageRecord Premium (snd (checkAndResetDaily exampleConfig ''2025-01-15'' ledgerJan14))
       = Some \<lparr>tier = Premium, date = ''2025-01-15'', tokens_used = 0, limit = 1000000\<rparr>"
    by (simp add: exampleConfig_def)
  from thm2 b c have c2:
    "getUsageRecord Premium (initializeConfig exampleConfig ''2025-01-14'' ledgerJan14)
       = Some \<lparr>tier = Premium, date = ''2025-01-14'', tokens_used = 500, limit = 1000\<rparr>"
    by blast
  from thm2 b c e have c3:
    "map_option limit
        (getUsageRecord Premium
           (fst (proxyRequest exampleConfig envJan14 (chatRequest ''gpt-4o'' False) ledgerJan14)))
       = Some 1000"
    by simp
  from thm2 r c have c4: "map_option limit (getUsageRecord Premium db') = Some 1000"
    by simp
  from a b c c1 c2 c3 c4 r show ?thesis
    by blast
qed

subsection \<open>Admission\<close>

lemma admitRequest_Inr:
  "admitRequest c db = Inr (m, t) \<Longrightarrow>
     \<exists>r s. req_body c = Parsed (Some m) s \<and> m \<noteq> [] \<and> t = getModelTier m
          \<and> getUsageRecord t db = Some r \<and> tokens_used r < limit r"
  by (auto simp: admitRequest_def Let_def split: RequestBody.splits option.splits if_splits)

text \<open>
  C3. A request whose body carries a non-empty \<open>model\<close> is checked against the row of the
  model's tier as it stands after the daily check (\<open>db1\<close>), and against that row only.
  When \<open>tokens_used \<ge> limit\<close> the answer is the 429 error whose message names the tier,
  the usage, the limit and the 00:00 UTC reset, and nothing is forwarded or written;
  otherwise the request falls through to forwarding with the model and its tier.
\<close>

theorem admission_denies_iff_limit_reached:
  assumes "req_body c = Parsed (Some m) s" and "m \<noteq> []"
    and "db1 = snd (checkAndResetDaily cfg (today env) db)"
    and "getUsageRecord (getModelTier m) db1 = Some r"
  shows "admitRequest c db1 =
           (if tokens_used r \<ge> limit r then
              Inl (ErrorJson 429
                     (''Daily limit for '' @ tierName (getModelTier m) @ '' tier exceeded (''
                        @ showInt (tokens_used r) @ ''/'' @ showInt (limit r)
                        @ '' tokens). Resets at 00:00 UTC.'')
                     ''rate_limit_error'' (Some ''daily_token_limit_exceeded''))
            else Inr (m, getModelTier m))
         \<and> proxyRequest cfg env c db =
           (if tokens_used r \<ge> limit r then
              (db1, ErrorJson 429 (resetInfo (getModelTier m) r) ''rate_limit_error''
                      (Some ''daily_token_limit_exceeded''))
            else forwardRequest env c m (getModelTier m) db1)"
  using assms by (simp add: admitRequest_def proxyRequest_def resetInfo_def Let_def)

text \<open>
  A premium request against the ledger whose premium tier stands at 1000 of 1000 is
  denied, although the mini tier is far below its limit.
\<close>

theorem admission_denies_iff_limit_reached_witness:
  "req_body (chatRequest ''gpt-4o'' False) = Parsed (Some ''gpt-4o'') False
   \<and> ''gpt-4o'' \<noteq> []
   \<and> getUsageRecord (getModelTier ''gpt-4o'')
        (snd (checkAndResetDaily exampleConfig (today envJan14) ledgerFull))
       = Some \<lparr>tier = Premium, date = ''2025-01-14'', tokens_used = 1000, limit = 1000\<rparr>
   \<and> proxyRequest exampleConfig envJan14 (chatRequest ''gpt-4o'' False) ledgerFull
       = (ledgerFull,
          ErrorJson 429
            ''Daily limit for premium tier exceeded (1000/1000 tokens). Resets at 00:00 UTC.''
            ''rate_limit_error'' (Some ''daily_token_limit_exceeded''))"
  using admission_denies_iff_limit_reached
    [of "chatRequest ''gpt-4o'' False" "''gpt-4o''" False
        "snd (checkAndResetDaily exampleConfig (today envJan14) ledgerFull)" exampleConfig
        envJan14 ledgerFull
        "\<lparr>tier = Premium, date = ''2025-01-14'', tokens_used = 1000, limit = 1000\<rparr>"]
  by (simp add: example_defs checkAndResetDaily_def store_defs classify_defs resetInfo_def
        showInt_def showNat.simps)

subsection \<open>Accounting of forwarded requests\<close>

text \<open>
  C6. For an admitted, non-streaming request whose upstream answer is JSON: when the
  answer carries a usage object with \<open>total_tokens > 0\<close> (and the store takes the history
  row), the row of the request's tier gains exactly \<open>total_tokens\<close>, every other row is
  as it was, and exactly one history entry is appended, carrying the request's model,
  tier and path, the three token counts and the upstream status. When the usage object
  is absent or \<open>total_tokens \<le> 0\<close>, the database is left as the daily check left it.
\<close>

theorem nonstreaming_usage_is_accounted:
  assumes "db1 = snd (checkAndResetDaily cfg (today env) db)"
    and "admitRequest c db1 = Inr (m, t)"
    and "\<not> isStreaming c"
    and "upstream env = UpstreamResponse st (JsonBody usage)"
  shows "(\<forall>u. usage = Some u \<and> 0 < total_tokens u \<and> history_accepted env \<longrightarrow>
            (\<exists>r. getUsageRecord t db1 = Some r \<and>
               proxyRequest cfg env c db =
                 (db1\<lparr>usage_records :=
                         (usage_records db1)(t \<mapsto> r\<lparr>tokens_used := tokens_used r + total_tokens u\<rparr>),
                       request_history :=
                         request_history db1 @
                           [\<lparr>entry_id = Suc (length (request_history db1)), timestamp = now env,
                             model = m, prompt_tokens_h = prompt_tokens u,
                             completion_tokens_h = completion_tokens u,
                             total_tokens_h = total_tokens u, request_path = req_path c,
                             status = st, tier_h = t\<rparr>]\<rparr>,
                  JsonResponse st usage)))
       \<and> ((usage = None \<or> (\<exists>u. usage = Some u \<and> total_tokens u \<le> 0)) \<longrightarrow>
            proxyRequest cfg env c db = (db1, JsonResponse st usage))"
proof -
  from assms(2) obtain r where r: "getUsageRecord t db1 = Some r"
    using admitRequest_Inr by blast
  have run: "proxyRequest cfg env c db = forwardRequest env c m t db1"
    using assms(1,2) by (simp add: proxyRequest_def)
  show ?thesis
    using r assms(3,4) unfolding run
    by (auto simp: forwardRequest_def incrementTokens_def addRequestHistory_def
          getUsageRecord_def Let_def)
qed

text \<open>
  The round trip of the specification: usage \<open>{prompt: 100, completion: 50, total: 150}\<close>
  on a premium request against a premium counter of 500.
\<close>

theorem nonstreaming_usage_is_accounted_witness:
  "admitRequest (chatRequest ''gpt-4o'' False)
       (snd (checkAndResetDaily exampleConfig (today envJan14) ledgerJan14))
     = Inr (''gpt-4o'', Premium)
   \<and> \<not> isStreaming (chatRequest ''gpt-4o'' False)
   \<and> upstream envJan14
       = UpstreamResponse 200
           (JsonBody (Some \<lparr>prompt_tokens = 100, completion_tokens = 50, total_tokens = 150\<rparr>))
   \<and> history_accepted envJan14
   \<and> getUsageRecord Premium
        (fst (proxyRequest exampleConfig envJan14 (chatRequest ''gpt-4o'' False) ledgerJan14))
       = Some \<lparr>tier = Premium, date = ''2025-01-14'', tokens_used = 650, limit = 1000\<rparr>
   \<and> getUsageRecord Mini
        (fst (proxyRequest exampleConfig envJan14 (chatRequest ''gpt-4o'' False) ledgerJan14))
       = getUsageRecord Mini ledgerJan14
   \<and> request_history
        (fst (proxyRequest exampleConfig envJan14 (chatRequest ''gpt-4o'' False) ledgerJan14))
       = [\<lparr>entry_id = 1, timestamp = ''2025-01-14T10:00:00.000Z'', model = ''gpt-4o'',
           prompt_tokens_h = 100, completion_tokens_h = 50, total_tokens_h = 150,
           request_path = ''/v1/chat/completions'', status = 200, tier_h = Premium\<rparr>]"
proof -
  let ?db1 = "snd (checkAndResetDaily exampleConfig (today envJan14) ledgerJan14)"
  have db1: "?db1 = ledgerJan14"
    by (simp add: example_defs checkAndResetDaily_def store_defs)
  have adm: "admitRequest (chatRequest ''gpt-4o'' False) ?db1 = Inr (''gpt-4o'', Premium)"
    unfolding db1
    by (simp add: admitRequest_def example_defs classify_defs getUsageRecord_def)
  have ns: "\<not> isStreaming (chatRequest ''gpt-4o'' False)"
    by (simp add: isStreaming_def chatRequest_def)
  have up: "upstream envJan14
       = UpstreamResponse 200
           (JsonBody (Some \<lparr>prompt_tokens = 100, completion_tokens = 50, total_tokens = 150\<rparr>))"
    and ok: "history_accepted envJan14"
    by (simp_all add: envJan14_def)
  from nonstreaming_usage_is_accounted [OF refl adm ns up] ok
  obtain r where r: "getUsageRecord Premium ?db1 = Some r"
    and run: "proxyRequest exampleConfig envJan14 (chatRequest ''gpt-4o'' False) ledgerJan14 =
       (?db1\<lparr>usage_records := (usage_records ?db1)(Premium \<mapsto> r\<lparr>tokens_used := tokens_used r + 150\<rparr>),
             request_history := request_history ?db1 @
               [\<lparr>entry_id = Suc (length (request_history ?db1)), timestamp = now envJan14,
                 model = ''gpt-4o'', prompt_tokens_h = 100, completion_tokens_h = 50,
                 total_tokens_h = 150, request_path = req_path (chatRequest ''gpt-4o'' False),
                 status = 200, tier_h = Premium\<rparr>]\<rparr>,
        JsonResponse 200 (Some \<lparr>prompt_tokens = 100, completion_tokens = 50, total_tokens = 150\<rparr>))"
    by auto
  from r have r': "r = \<lparr>tier = Premium, date = ''2025-01-14'', tokens_used = 500, limit = 1000\<rparr>"
    unfolding db1 by (simp add: ledgerJan14_def getUsageRecord_def)
  show ?thesis
    using adm ns up ok
    unfolding run r' db1
    by (simp add: example_defs getUsageRecord_def)
qed

text \<open>
  C7. A streaming request (\<open>stream = true\<close>) leaves the database exactly as the daily
  check at the top of the pipeline left it, whatever the upstream does and whatever
  status it answers with: no row's \<open>tokens_used\<close> is incremented and the history is the
  one before the request. On a day that is already current the database is unchanged.
\<close>

theorem streaming_request_is_not_accounted:
  assumes "isStreaming c"
  shows "fst (proxyRequest cfg env c db) = snd (checkAndResetDaily cfg (today env) db)
       \<and> request_history (fst (proxyRequest cfg env c db)) = request_history db
       \<and> (getConfigValue ''current_date'' db = Some (today env) \<longrightarrow>
            fst (proxyRequest cfg env c db) = db)"
  using assms
  by (auto simp: proxyRequest_def forwardRequest_def checkAndResetDaily_def store_defs Let_def
        split: sum.splits Upstream.splits prod.splits)

text \<open>A streamed premium request answered with status 200: the ledger is untouched.\<close>

theorem streaming_request_is_not_accounted_witness:
  "isStreaming (chatRequest ''gpt-4o'' True)
   \<and> getConfigValue ''current_date'' ledgerJan14 = Some (today envJan14)
   \<and> proxyRequest exampleConfig envJan14 (chatRequest ''gpt-4o'' True) ledgerJan14
       = (ledgerJan14, StreamResponse 200)"
proof -
  have st: "isStreaming (chatRequest ''gpt-4o'' True)"
    by (simp add: isStreaming_def chatRequest_def)
  have cur: "getConfigValue ''current_date'' ledgerJan14 = Some (today envJan14)"
    by (simp add: example_defs getConfigValue_def)
  from streaming_request_is_not_accounted [OF st, of exampleConfig envJan14 ledgerJan14] cur
  have db: "fst (proxyRequest exampleConfig envJan14 (chatRequest ''gpt-4o'' True) ledgerJan14)
              = ledgerJan14"
    by blast
  have resp: "snd (proxyRequest exampleConfig envJan14 (chatRequest ''gpt-4o'' True) ledgerJan14)
                = StreamResponse 200"
    by (simp add: proxyRequest_def forwardRequest_def admitRequest_def isStreaming_def
          checkAndResetDaily_def store_defs classify_defs example_defs Let_def)
  from st cur db resp show ?thesis
    by (metis prod.collapse)
qed

text \<open>
  C9. The claim: when the increment succeeds and the history append then fails, the
  failure is reported apart from request failures and the client does not receive an
  error response. In the source the append runs inside the \<^verbatim>\<open>try\<close> block of the
  forward, whose \<^verbatim>\<open>catch\<close> answers every exception alike. The example below has the
  upstream answer 200 with usage and the store refuse the history row: the client
  receives the 500 error, the premium counter keeps the 150 tokens, the history stays
  empty, and the response is the very one a failed forward produces.
\<close>

theorem history_failure_becomes_error_response:
  "upstream envJan14
     = UpstreamResponse 200
         (JsonBody (Some \<lparr>prompt_tokens = 100, completion_tokens = 50, total_tokens = 150\<rparr>))
   \<and> snd (proxyRequest exampleConfig (envJan14\<lparr>history_accepted := False\<rparr>)
             (chatRequest ''gpt-4o'' False) ledgerJan14)
       = ErrorJson 500 ''Failed to proxy request to OpenAI API'' ''server_error'' None
   \<and> getUsageRecord Premium
        (fst (proxyRequest exampleConfig (envJan14\<lparr>history_accepted := False\<rparr>)
                (chatRequest ''gpt-4o'' False) ledgerJan14))
       = Some \<lparr>tier = Premium, date = ''2025-01-14'', tokens_used = 650, limit = 1000\<rparr>
   \<and> request_history
        (fst (proxyRequest exampleConfig (envJan14\<lparr>history_accepted := False\<rparr>)
                (chatRequest ''gpt-4o'' False) ledgerJan14)) = []
   \<and> proxyRequest exampleConfig (envJan14\<lparr>upstream := FetchFails\<rparr>)
        (chatRequest ''gpt-4o'' False) ledgerJan14
       = (ledgerJan14, ErrorJson 500 ''Failed to proxy request to OpenAI API'' ''server_error'' None)"
  by (simp add: proxyRequest_def forwardRequest_def addRequestHistory_def proxyFailure_def
        admitRequest_def isStreaming_def incrementTokens_def checkAndResetDaily_def store_defs
        classify_defs example_defs Let_def)

text \<open>
  C9, as the code has it: for an admitted, non-streaming request whose upstream answer
  carries usage with \<open>total_tokens > 0\<close>, if the store refuses the history row then the
  increment stays applied and the client receives the generic 500 \<open>server_error\<close>
  response of a failed forward.
\<close>

theorem history_failure_keeps_increment_and_answers_500:
  assumes "db1 = snd (checkAndResetDaily cfg (today env) db)"
    and "admitRequest c db1 = Inr (m, t)"
    and "\<not> isStreaming c"
    and "upstream env = UpstreamResponse st (JsonBody (Some u))"
    and "0 < total_tokens u"
    and "\<not> history_accepted env"
  shows "proxyRequest cfg env c db =
           (incrementTokens t (total_tokens u) db1,
            ErrorJson 500 ''Failed to proxy request to OpenAI API'' ''server_error'' None)"
  using assms
  by (simp add: proxyRequest_def forwardRequest_def addRequestHistory_def proxyFailure_def Let_def)

theorem history_failure_keeps_increment_and_answers_500_witness:
  "admitRequest (chatRequest ''gpt-4o'' False)
       (snd (checkAndResetDaily exampleConfig (today (envJan14\<lparr>history_accepted := False\<rparr>))
               ledgerJan14))
     = Inr (''gpt-4o'', Premium)
   \<and> \<not> isStreaming (chatRequest ''gpt-4o'' False)
   \<and> upstream (envJan14\<lparr>history_accepted := False\<rparr>)
       = UpstreamResponse 200
           (JsonBody (Some \<lparr>prompt_tokens = 100, completion_tokens = 50, total_tokens = 150\<rparr>))
   \<and> (0::int) < total_tokens \<lparr>prompt_tokens = 100, completion_tokens = 50, total_tokens = 150\<rparr>
   \<and> \<not> history_accepted (envJan14\<lparr>history_accepted := False\<rparr>)
   \<and> proxyRequest exampleConfig (envJan14\<lparr>history_accepted := False\<rparr>)
        (chatRequest ''gpt-4o'' False) ledgerJan14
       = (incrementTokens Premium 150 ledgerJan14,
          ErrorJson 500 ''Failed to proxy request to OpenAI API'' ''server_error'' None)"
proof -
  let ?env = "envJan14\<lparr>history_accepted := False\<rparr>"
  let ?db1 = "snd (checkAndResetDaily exampleConfig (today ?env) ledgerJan14)"
  have db1: "?db1 = ledgerJan14"
    by (simp add: example_defs checkAndResetDaily_def store_defs)
  have adm: "admitRequest (chatRequest ''gpt-4o'' False) ?db1 = Inr (''gpt-4o'', Premium)"
    unfolding db1
    by (simp add: admitRequest_def example_defs classify_defs getUsageRecord_def)
  have ns: "\<not> isStreaming (chatRequest ''gpt-4o'' False)"
    by (simp add: isStreaming_def chatRequest_def)
  have up: "upstream ?env
       = UpstreamResponse 200
           (JsonBody (Some \<lparr>prompt_tokens = 100, completion_tokens = 50, total_tokens = 150\<rparr>))"
    and pos: "(0::int) < total_tokens \<lparr>prompt_tokens = 100, completion_tokens = 50, total_tokens = 150\<rparr>"
    and no: "\<not> history_accepted ?env"
    by (simp_all add: envJan14_def)
  from history_failure_keeps_increment_and_answers_500 [OF refl adm ns up pos no]
  show ?thesis
    using adm ns up pos no by (simp add: example_defs checkAndResetDaily_def store_defs)
qed

subsection \<open>Reconciliation\<close>

text \<open>Helper facts: the run of \<^verbatim>\<open>reconcileUsage\<close> once the report has been fetched.\<close>

lemma incrementTokens_if_positive:
  assumes "getUsageRecord t db = Some r" and "0 \<le> n"
  shows "(if 0 < n then incrementTokens t n db else db)
           = db\<lparr>usage_records := (usage_records db)(t \<mapsto> r\<lparr>tokens_used := tokens_used r + n\<rparr>)\<rparr>"
proof (cases "n = 0")
  case True
  then show ?thesis
    using assms(1) by (simp add: getUsageRecord_def map_upd_triv)
next
  case False
  then show ?thesis
    using assms by (simp add: getUsageRecord_def incrementTokens_def)
qed

lemma reconcileUsage_run:
  assumes "parseDate (targetDate today_s date_arg @ ''T00:00:00Z'') = Some ms"
    and "getUsageRecord Premium db = Some p" and "getUsageRecord Mini db = Some q"
    and "fetchOpenAIUsage api envKey (ms div 1000) (Some (ms div 1000 + 86400)) None
           = Some (Inr results)"
  shows "reconcileUsage api envKey parseDate today_s date_arg db =
           Some (Inr \<lparr>success = True, result_date = targetDate today_s date_arg,
                      premium =
                        \<lparr>before = tokens_used p,
                         after = tokens_used p
                                   + max 0 (tierTotals results Premium - tokens_used p),
                         added = max 0 (tierTotals results Premium - tokens_used p)\<rparr>,
                      mini =
                        \<lparr>before = tokens_used q,
                         after = tokens_used q + max 0 (tierTotals results Mini - tokens_used q),
                         added = max 0 (tierTotals results Mini - tokens_used q)\<rparr>,
                      details =
                        map (\<lambda>result. (result_model result, getModelTier (result_model result),
                                         input_tokens result + output_tokens result)) results\<rparr>,
                 db\<lparr>usage_records := (usage_records db)
                      (Premium \<mapsto>
                         p\<lparr>tokens_used :=
                             tokens_used p + max 0 (tierTotals results Premium - tokens_used p)\<rparr>,
                       Mini \<mapsto>
                         q\<lparr>tokens_used :=
                             tokens_used q + max 0 (tierTotals results Mini - tokens_used q)\<rparr>)\<rparr>)"
proof -
  let ?P = "max 0 (tierTotals results Premium - tokens_used p)"
  let ?Q = "max 0 (tierTotals results Mini - tokens_used q)"
  let ?db1 = "db\<lparr>usage_records :=
                   (usage_records db)(Premium \<mapsto> p\<lparr>tokens_used := tokens_used p + ?P\<rparr>)\<rparr>"
  let ?db2 = "?db1\<lparr>usage_records :=
                     (usage_records ?db1)(Mini \<mapsto> q\<lparr>tokens_used := tokens_used q + ?Q\<rparr>)\<rparr>"
  have s1: "(if 0 < ?P then incrementTokens Premium ?P db else db) = ?db1"
    using incrementTokens_if_positive [OF assms(2), of ?P] by simp
  have q1: "getUsageRecord Mini ?db1 = Some q"
    using assms(3) by (simp add: getUsageRecord_def)
  have s2: "(if 0 < ?Q then incrementTokens Mini ?Q ?db1 else ?db1) = ?db2"
    using incrementTokens_if_positive [OF q1, of ?Q] by simp
  show ?thesis
    apply (simp only: reconcileUsage_def Let_def assms option.case sum.case prod.case s1 s2)
    apply (simp add: getUsageRecord_def)
    done
qed

lemma reconcileUsage_success_cases:
  assumes "reconcileUsage api envKey parseDate today_s date_arg db = Some (Inr res, db')"
  shows "\<exists>ms p q results.
           parseDate (targetDate today_s date_arg @ ''T00:00:00Z'') = Some ms
         \<and> getUsageRecord Premium db = Some p \<and> getUsageRecord Mini db = Some q
         \<and> fetchOpenAIUsage api envKey (ms div 1000) (Some (ms div 1000 + 86400)) None
             = Some (Inr results)"
  using assms
  by (auto simp: reconcileUsage_def Let_def split: option.splits sum.splits)

lemma ledgerJan14_rows:
  "parseJan14 (targetDate ''2025-01-14'' None @ ''T00:00:00Z'') = Some 1736812800000"
  "getUsageRecord Premium ledgerJan14
     = Some \<lparr>tier = Premium, date = ''2025-01-14'', tokens_used = 500, limit = 1000\<rparr>"
  "getUsageRecord Mini ledgerJan14
     = Some \<lparr>tier = Mini, date = ''2025-01-14'', tokens_used = 30, limit = 10000000\<rparr>"
  by (simp_all add: example_defs targetDate_def getUsageRecord_def)

text \<open>
  C2. In every reconciliation run that has fetched its report, each tier's correction is
  \<open>max 0 (upstream total - before)\<close>, where \<open>before\<close> is the tier's counter read at the
  start of the run; the counter afterwards is \<open>before + added\<close>, never below \<open>before\<close>.
  When the local counter is at or above the upstream total, \<open>added\<close> is 0 and the tier's
  row is the one before the run.
\<close>

theorem reconcileUsage_adds_only_shortfall:
  assumes "parseDate (targetDate today_s date_arg @ ''T00:00:00Z'') = Some ms"
    and "getUsageRecord Premium db = Some p" and "getUsageRecord Mini db = Some q"
    and "fetchOpenAIUsage api envKey (ms div 1000) (Some (ms div 1000 + 86400)) None
           = Some (Inr results)"
  shows "\<exists>res db'. reconcileUsage api envKey parseDate today_s date_arg db = Some (Inr res, db')
          \<and> before (premium res) = tokens_used p
          \<and> added (premium res) = max 0 (tierTotals results Premium - tokens_used p)
          \<and> after (premium res) = before (premium res) + added (premium res)
          \<and> getUsageRecord Premium db'
              = Some (p\<lparr>tokens_used := tokens_used p + added (premium res)\<rparr>)
          \<and> before (mini res) = tokens_used q
          \<and> added (mini res) = max 0 (tierTotals results Mini - tokens_used q)
          \<and> after (mini res) = before (mini res) + added (mini res)
          \<and> getUsageRecord Mini db'
              = Some (q\<lparr>tokens_used := tokens_used q + added (mini res)\<rparr>)
          \<and> tokens_used p \<le> after (premium res) \<and> tokens_used q \<le> after (mini res)
          \<and> (tierTotals results Premium \<le> tokens_used p \<longrightarrow>
                added (premium res) = 0 \<and> after (premium res) = tokens_used p
                \<and> getUsageRecord Premium db' = Some p)
          \<and> (tierTotals results Mini \<le> tokens_used q \<longrightarrow>
                added (mini res) = 0 \<and> after (mini res) = tokens_used q
                \<and> getUsageRecord Mini db' = Some q)"
  using reconcileUsage_run [where parseDate = parseDate, OF assms]
  by (simp add: getUsageRecord_def max_def)

text \<open>
  The scenario of the specification: the ledger holds 500 premium tokens and the report
  totals 300 for the tier, so nothing is added and the counter stays at 500; the mini
  tier holds 30 against a reported 50 and gains the missing 20.
\<close>

theorem reconcileUsage_adds_only_shortfall_witness:
  "parseJan14 (targetDate ''2025-01-14'' None @ ''T00:00:00Z'') = Some 1736812800000
   \<and> fetchOpenAIUsage reportApi (Some ''sk-admin'') (1736812800000 div 1000)
        (Some (1736812800000 div 1000 + 86400)) None = Some (Inr reportRows)
   \<and> tierTotals reportRows Premium = 300
   \<and> (\<exists>res db'. reconcileUsage reportApi (Some ''sk-admin'') parseJan14 ''2025-01-14'' None
                    ledgerJan14 = Some (Inr res, db')
         \<and> before (premium res) = 500 \<and> added (premium res) = 0 \<and> after (premium res) = 500
         \<and> getUsageRecord Premium db' = getUsageRecord Premium ledgerJan14
         \<and> before (mini res) = 30 \<and> added (mini res) = 20 \<and> after (mini res) = 50)"
proof -
  have fetched: "fetchOpenAIUsage reportApi (Some ''sk-admin'') (1736812800000 div 1000)
        (Some (1736812800000 div 1000 + 86400)) None = Some (Inr reportRows)"
    using reportApi_fetch by simp
  from reconcileUsage_adds_only_shortfall
         [where parseDate = parseJan14, OF ledgerJan14_rows fetched]
  obtain res db' where
    "reconcileUsage reportApi (Some ''sk-admin'') parseJan14 ''2025-01-14'' None ledgerJan14
       = Some (Inr res, db')"
    "before (premium res) = 500" "added (premium res) = 0" "after (premium res) = 500"
    "getUsageRecord Premium db' = getUsageRecord Premium ledgerJan14"
    "before (mini res) = 30" "added (mini res) = 20" "after (mini res) = 50"
    by (auto simp: reportRows_totals ledgerJan14_rows)
  then show ?thesis
    using ledgerJan14_rows(1) fetched reportRows_totals(1) by blast
qed

text \<open>
  C4. A run that throws leaves the database as it found it. With an admin key, a valid
  date and both rows present: when the endpoint serves the pages from the first address
  through the cursors \<open>vs\<close> and the last page names no further cursor, the fetch returns
  the rows of all these pages in order, and the run completes with both corrections
  computed from all of them; when a page on the way is not served (status not ok, network
  failure, unreadable body), the run throws and the database is unchanged, whatever the
  earlier pages held.
\<close>

theorem reconcileUsage_all_pages_or_nothing:
  "(reconcileUsage api envKey parseDate today_s date_arg db = Some (Inl e, db') \<longrightarrow> db' = db)
   \<and> (envKey = Some k \<and> k \<noteq> []
       \<and> parseDate (targetDate today_s date_arg @ ''T00:00:00Z'') = Some ms
       \<and> getUsageRecord Premium db = Some p \<and> getUsageRecord Mini db = Some q \<longrightarrow>
      (completePages (api k) (usageUrl (ms div 1000) (Some (ms div 1000 + 86400))) vs \<longrightarrow>
         fetchOpenAIUsage api envKey (ms div 1000) (Some (ms div 1000 + 86400)) None
           = Some (Inr (concat (map (\<lambda>a. pageRows (api k a))
                                  (usageUrl (ms div 1000) (Some (ms div 1000 + 86400)) # vs))))
         \<and> (\<exists>res db2.
               reconcileUsage api envKey parseDate today_s date_arg db = Some (Inr res, db2)
             \<and> details res =
                 map (\<lambda>result. (result_model result, getModelTier (result_model result),
                                  input_tokens result + output_tokens result))
                   (concat (map (\<lambda>a. pageRows (api k a))
                              (usageUrl (ms div 1000) (Some (ms div 1000 + 86400)) # vs)))
             \<and> added (premium res) =
                 max 0 (tierTotals
                          (concat (map (\<lambda>a. pageRows (api k a))
                                     (usageUrl (ms div 1000) (Some (ms div 1000 + 86400)) # vs)))
                          Premium - tokens_used p)
             \<and> added (mini res) =
                 max 0 (tierTotals
                          (concat (map (\<lambda>a. pageRows (api k a))
                                     (usageUrl (ms div 1000) (Some (ms div 1000 + 86400)) # vs)))
                          Mini - tokens_used q)))
      \<and> (failingPages (api k) (usageUrl (ms div 1000) (Some (ms div 1000 + 86400))) vs \<longrightarrow>
           (\<exists>err. reconcileUsage api envKey parseDate today_s date_arg db = Some (Inl err, db))))"
proof -
  let ?u = "usageUrl (ms div 1000) (Some (ms div 1000 + 86400))"
  let ?rows = "concat (map (\<lambda>a. pageRows (api k a)) (?u # vs))"
  have abort: "reconcileUsage api envKey parseDate today_s date_arg db = Some (Inl e, db')
                 \<longrightarrow> db' = db"
    by (auto simp: reconcileUsage_def Let_def split: option.splits sum.splits if_splits)
  {
    assume key: "envKey = Some k" "k \<noteq> []"
      and d: "parseDate (targetDate today_s date_arg @ ''T00:00:00Z'') = Some ms"
      and p: "getUsageRecord Premium db = Some p" and q: "getUsageRecord Mini db = Some q"
    have fetch: "fetchOpenAIUsage api envKey (ms div 1000) (Some (ms div 1000 + 86400)) None
                   = fetchPages (api k) ?u []"
      using key by (simp add: fetchOpenAIUsage_def)
    {
      assume "completePages (api k) ?u vs"
      then have f: "fetchOpenAIUsage api envKey (ms div 1000) (Some (ms div 1000 + 86400)) None
                      = Some (Inr ?rows)"
        unfolding fetch using fetchPages_complete [of "api k" ?u vs "[]"] by simp
      note run = reconcileUsage_run [where parseDate = parseDate, OF d p q f]
      have "\<exists>res db2.
               reconcileUsage api envKey parseDate today_s date_arg db = Some (Inr res, db2)
             \<and> details res =
                 map (\<lambda>result. (result_model result, getModelTier (result_model result),
                                  input_tokens result + output_tokens result)) ?rows
             \<and> added (premium res) = max 0 (tierTotals ?rows Premium - tokens_used p)
             \<and> added (mini res) = max 0 (tierTotals ?rows Mini - tokens_used q)"
        unfolding run by simp
      with f have
        "fetchOpenAIUsage api envKey (ms div 1000) (Some (ms div 1000 + 86400)) None
           = Some (Inr ?rows)
         \<and> (\<exists>res db2.
               reconcileUsage api envKey parseDate today_s date_arg db = Some (Inr res, db2)
             \<and> details res =
                 map (\<lambda>result. (result_model result, getModelTier (result_model result),
                                  input_tokens result + output_tokens result)) ?rows
             \<and> added (premium res) = max 0 (tierTotals ?rows Premium - tokens_used p)
             \<and> added (mini res) = max 0 (tierTotals ?rows Mini - tokens_used q))"
        by blast
    }
    moreover
    {
      assume "failingPages (api k) ?u vs"
      then obtain err where "fetchPages (api k) ?u [] = Some (Inl err)"
        using fetchPages_failing by blast
      then have "reconcileUsage api envKey parseDate today_s date_arg db = Some (Inl err, db)"
        using d p q fetch by (simp add: reconcileUsage_def Let_def)
      then have "\<exists>err. reconcileUsage api envKey parseDate today_s date_arg db
                         = Some (Inl err, db)"
        by blast
    }
    ultimately have
      "(completePages (api k) ?u vs \<longrightarrow>
         fetchOpenAIUsage api envKey (ms div 1000) (Some (ms div 1000 + 86400)) None
           = Some (Inr ?rows)
         \<and> (\<exists>res db2.
               reconcileUsage api envKey parseDate today_s date_arg db = Some (Inr res, db2)
             \<and> details res =
                 map (\<lambda>result. (result_model result, getModelTier (result_model result),
                                  input_tokens result + output_tokens result)) ?rows
             \<and> added (premium res) = max 0 (tierTotals ?rows Premium - tokens_used p)
             \<and> added (mini res) = max 0 (tierTotals ?rows Mini - tokens_used q)))
       \<and> (failingPages (api k) ?u vs \<longrightarrow>
           (\<exists>err. reconcileUsage api envKey parseDate today_s date_arg db = Some (Inl err, db)))"
      by blast
  }
  with abort show ?thesis
    by blast
qed

text \<open>
  The two-page report is fetched whole and both pages enter the result; with the second
  page answering 500, the run throws and the ledger is unchanged, although the first
  page alone reported 50 mini tokens against a local 30.
\<close>

theorem reconcileUsage_all_pages_or_nothing_witness:
  "''sk-admin'' \<noteq> []
   \<and> parseJan14 (targetDate ''2025-01-14'' None @ ''T00:00:00Z'') = Some 1736812800000
   \<and> completePages (reportApi ''sk-admin'')
        (usageUrl (1736812800000 div 1000) (Some (1736812800000 div 1000 + 86400))) [''page_2'']
   \<and> fetchOpenAIUsage reportApi (Some ''sk-admin'') (1736812800000 div 1000)
        (Some (1736812800000 div 1000 + 86400)) None = Some (Inr reportRows)
   \<and> (\<exists>res db2. reconcileUsage reportApi (Some ''sk-admin'') parseJan14 ''2025-01-14'' None
                    ledgerJan14 = Some (Inr res, db2)
         \<and> details res = [(''gpt-4o'', Premium, 300), (''o4-mini'', Mini, 50)]
         \<and> added (premium res) = 0 \<and> added (mini res) = 20)
   \<and> failingPages (brokenApi ''sk-admin'')
        (usageUrl (1736812800000 div 1000) (Some (1736812800000 div 1000 + 86400))) [''page_2'']
   \<and> (\<exists>err. reconcileUsage brokenApi (Some ''sk-admin'') parseJan14 ''2025-01-14'' None
                ledgerJan14 = Some (Inl err, ledgerJan14))"
proof -
  let ?u = "usageUrl (1736812800000 div 1000) (Some (1736812800000 div 1000 + 86400))"
  have key: "''sk-admin'' \<noteq> []"
    by simp
  have good: "completePages (reportApi ''sk-admin'') ?u [''page_2'']"
    using reportApi_pages by simp
  have bad: "failingPages (brokenApi ''sk-admin'') ?u [''page_2'']"
    using brokenApi_pages by simp
  have rows: "concat (map (\<lambda>a. pageRows (reportApi ''sk-admin'' a)) (?u # [''page_2'']))
                = reportRows"
    by (simp add: reportApi_def reportRows_def usageUrl_def)
  note complete = reconcileUsage_all_pages_or_nothing
    [where api = reportApi and envKey = "Some ''sk-admin''" and k = "''sk-admin''"
       and parseDate = parseJan14 and today_s = "''2025-01-14''" and date_arg = None
       and ms = 1736812800000 and db = ledgerJan14 and vs = "[''page_2'']"
       and p = "\<lparr>tier = Premium, date = ''2025-01-14'', tokens_used = 500, limit = 1000\<rparr>"
       and q = "\<lparr>tier = Mini, date = ''2025-01-14'', tokens_used = 30, limit = 10000000\<rparr>"]
  note failing = reconcileUsage_all_pages_or_nothing
    [where api = brokenApi and envKey = "Some ''sk-admin''" and k = "''sk-admin''"
       and parseDate = parseJan14 and today_s = "''2025-01-14''" and date_arg = None
       and ms = 1736812800000 and db = ledgerJan14 and vs = "[''page_2'']"
       and p = "\<lparr>tier = Premium, date = ''2025-01-14'', tokens_used = 500, limit = 1000\<rparr>"
       and q = "\<lparr>tier = Mini, date = ''2025-01-14'', tokens_used = 30, limit = 10000000\<rparr>"]
  from complete key ledgerJan14_rows good
  have fetched: "fetchOpenAIUsage reportApi (Some ''sk-admin'') (1736812800000 div 1000)
        (Some (1736812800000 div 1000 + 86400)) None = Some (Inr reportRows)"
    and run: "\<exists>res db2. reconcileUsage reportApi (Some ''sk-admin'') parseJan14 ''2025-01-14'' None
                    ledgerJan14 = Some (Inr res, db2)
         \<and> details res =
             map (\<lambda>result. (result_model result, getModelTier (result_model result),
                              input_tokens result + output_tokens result)) reportRows
         \<and> added (premium res) = max 0 (tierTotals reportRows Premium - 500)
         \<and> added (mini res) = max 0 (tierTotals reportRows Mini - 30)"
    unfolding rows by simp_all
  have shown: "map (\<lambda>result. (result_model result, getModelTier (result_model result),
                                input_tokens result + output_tokens result)) reportRows
                 = [(''gpt-4o'', Premium, 300), (''o4-mini'', Mini, 50)]"
    by (simp add: reportRows_def classify_defs)
  from run have run': "\<exists>res db2. reconcileUsage reportApi (Some ''sk-admin'') parseJan14
                    ''2025-01-14'' None ledgerJan14 = Some (Inr res, db2)
         \<and> details res = [(''gpt-4o'', Premium, 300), (''o4-mini'', Mini, 50)]
         \<and> added (premium res) = 0 \<and> added (mini res) = 20"
    unfolding shown by (simp add: reportRows_totals)
  from failing key ledgerJan14_rows bad
  have aborted: "\<exists>err. reconcileUsage brokenApi (Some ''sk-admin'') parseJan14 ''2025-01-14'' None
                ledgerJan14 = Some (Inl err, ledgerJan14)"
    by simp
  from key ledgerJan14_rows(1) good fetched run' bad aborted show ?thesis
    by blast
qed

text \<open>
  C8. After a run that completed, a second run for the same date against the same
  upstream report, with nothing accounted in between, completes as well, adds 0 to both
  tiers and leaves the database as the first run left it.
\<close>

theorem reconcileUsage_second_run_adds_nothing:
  assumes "reconcileUsage api envKey parseDate today_s date_arg db = Some (Inr res1, db1)"
  shows "\<exists>res2. reconcileUsage api envKey parseDate today_s date_arg db1 = Some (Inr res2, db1)
           \<and> added (premium res2) = 0 \<and> added (mini res2) = 0
           \<and> after (premium res2) = before (premium res2)
           \<and> after (mini res2) = before (mini res2)
           \<and> before (premium res2) = after (premium res1)
           \<and> before (mini res2) = after (mini res1)"
proof -
  from reconcileUsage_success_cases [OF assms] obtain ms p q results where
    d: "parseDate (targetDate today_s date_arg @ ''T00:00:00Z'') = Some ms"
    and p: "getUsageRecord Premium db = Some p" and q: "getUsageRecord Mini db = Some q"
    and f: "fetchOpenAIUsage api envKey (ms div 1000) (Some (ms div 1000 + 86400)) None
              = Some (Inr results)"
    by blast
  let ?p' = "p\<lparr>tokens_used := tokens_used p + max 0 (tierTotals results Premium - tokens_used p)\<rparr>"
  let ?q' = "q\<lparr>tokens_used := tokens_used q + max 0 (tierTotals results Mini - tokens_used q)\<rparr>"
  note first = reconcileUsage_run [where parseDate = parseDate, OF d p q f]
  from first assms
  have p1: "getUsageRecord Premium db1 = Some ?p'" and q1: "getUsageRecord Mini db1 = Some ?q'"
    and a1: "after (premium res1) = tokens_used ?p'" and b1: "after (mini res1) = tokens_used ?q'"
    by (auto simp: getUsageRecord_def)
  have zp: "max 0 (tierTotals results Premium - tokens_used ?p') = 0"
    and zq: "max 0 (tierTotals results Mini - tokens_used ?q') = 0"
    by (simp_all add: max_def)
  note second = reconcileUsage_run [where parseDate = parseDate, OF d p1 q1 f]
  have same: "db1\<lparr>usage_records := (usage_records db1)(Premium \<mapsto> ?p', Mini \<mapsto> ?q')\<rparr> = db1"
    using p1 q1 by (simp add: getUsageRecord_def map_upd_triv)
  show ?thesis
    unfolding second zp zq a1 b1
    using same by simp
qed

text \<open>
  The ledger of 14 January reconciled twice against the two-page report: the first run
  adds the 20 missing mini tokens, the second adds nothing and changes nothing.
\<close>

theorem reconcileUsage_second_run_adds_nothing_witness:
  "\<exists>res1 db1. reconcileUsage reportApi (Some ''sk-admin'') parseJan14 ''2025-01-14'' None
                 ledgerJan14 = Some (Inr res1, db1)
      \<and> added (premium res1) = 0 \<and> added (mini res1) = 20
      \<and> (\<exists>res2. reconcileUsage reportApi (Some ''sk-admin'') parseJan14 ''2025-01-14'' None db1
                    = Some (Inr res2, db1)
            \<and> added (premium res2) = 0 \<and> added (mini res2) = 0
            \<and> after (premium res2) = 500 \<and> after (mini res2) = 50)"
proof -
  have fetched: "fetchOpenAIUsage reportApi (Some ''sk-admin'') (1736812800000 div 1000)
        (Some (1736812800000 div 1000 + 86400)) None = Some (Inr reportRows)"
    using reportApi_fetch by simp
  from reconcileUsage_run [where parseDate = parseJan14, OF ledgerJan14_rows fetched]
  have "\<exists>res1 db1. reconcileUsage reportApi (Some ''sk-admin'') parseJan14 ''2025-01-14'' None
                 ledgerJan14 = Some (Inr res1, db1)
      \<and> added (premium res1) = 0 \<and> added (mini res1) = 20
      \<and> after (premium res1) = 500 \<and> after (mini res1) = 50"
    by (simp add: reportRows_totals)
  then obtain res1 db1 where
    first: "reconcileUsage reportApi (Some ''sk-admin'') parseJan14 ''2025-01-14'' None
              ledgerJan14 = Some (Inr res1, db1)"
    and a: "added (premium res1) = 0" "added (mini res1) = 20"
    and b: "after (premium res1) = 500" "after (mini res1) = 50"
    by blast
  from reconcileUsage_second_run_adds_nothing [OF first] b
  have "\<exists>res2. reconcileUsage reportApi (Some ''sk-admin'') parseJan14 ''2025-01-14'' None db1
                    = Some (Inr res2, db1)
            \<and> added (premium res2) = 0 \<and> added (mini res2) = 0
            \<and> after (premium res2) = 500 \<and> after (mini res2) = 50"
    by auto
  with first a show ?thesis
    by blast
qed

end
